theory Spec2Isabelle
  imports Complex_Main
begin

section \<open>Values of the embedded script engine\<close>

text \<open>
  \<^verbatim>\<open>scriptedtool.cpp\<close> adapts the editor's tool interface to a script object held
  as a \<^verbatim>\<open>QJSValue\<close>. The model keeps the part of a \<^verbatim>\<open>QJSValue\<close> the file touches:
  the primitive values it builds as arguments, objects with named properties and a
  prototype, functions (objects that are callable), the wrapper the engine builds
  around a \<^verbatim>\<open>QObject\<close>, and error objects (what \<^verbatim>\<open>QJSValue::isError\<close>
  recognises). A prototype is a value: \<open>JSNull\<close> ends the chain.
\<close>

datatype qobject =
    ScriptedToolObject
  | EditableObject nat

datatype jsvalue =
    JSUndefined
  | JSNull
  | JSBool bool
  | JSInt int
  | JSReal real
  | JSString string
  | JSObject "(string \<times> jsvalue) list" jsvalue
  | JSFunction nat "(string \<times> jsvalue) list" jsvalue
  | JSQObject qobject jsvalue
  | JSError "(string \<times> jsvalue) list" jsvalue

text \<open>
  What the engine does and the file only asks for: running a function value with a
  receiver and arguments (\<^verbatim>\<open>QJSValue::callWithInstance\<close>), and the members a
  \<^verbatim>\<open>QObject\<close> wrapper exposes by itself (its meta-object's properties and methods).
  Both are parameters of the model.
\<close>

record script_engine =
  callWithInstance :: "jsvalue \<Rightarrow> jsvalue \<Rightarrow> jsvalue list \<Rightarrow> jsvalue"
  qobjectMember :: "qobject \<Rightarrow> string \<Rightarrow> jsvalue option"

fun isObject :: "jsvalue \<Rightarrow> bool" where
  "isObject (JSObject ps proto) = True"
| "isObject (JSFunction f ps proto) = True"
| "isObject (JSQObject q proto) = True"
| "isObject (JSError ps proto) = True"
| "isObject v = False"

fun isCallable :: "jsvalue \<Rightarrow> bool" where
  "isCallable (JSFunction f ps proto) = True"
| "isCallable v = False"

fun isError :: "jsvalue \<Rightarrow> bool" where
  "isError (JSError ps proto) = True"
| "isError v = False"

fun isString :: "jsvalue \<Rightarrow> bool" where
  "isString (JSString s) = True"
| "isString v = False"

text \<open>
  \<^verbatim>\<open>QJSValue::property(name)\<close>: the own property, else the prototype's; undefined
  when the value is not an object or nothing on the chain has the name.
\<close>

fun property :: "script_engine \<Rightarrow> jsvalue \<Rightarrow> string \<Rightarrow> jsvalue" where
  "property eng (JSObject ps proto) n =
     (case map_of ps n of Some v \<Rightarrow> v | None \<Rightarrow> property eng proto n)"
| "property eng (JSFunction f ps proto) n =
     (case map_of ps n of Some v \<Rightarrow> v | None \<Rightarrow> property eng proto n)"
| "property eng (JSQObject q proto) n =
     (case qobjectMember eng q n of Some v \<Rightarrow> v | None \<Rightarrow> property eng proto n)"
| "property eng (JSError ps proto) n =
     (case map_of ps n of Some v \<Rightarrow> v | None \<Rightarrow> property eng proto n)"
| "property eng v n = JSUndefined"

text \<open>
  \<^verbatim>\<open>QJSEngine::newQObject\<close> wraps a \<^verbatim>\<open>QObject\<close>; \<^verbatim>\<open>QJSValue::setPrototype\<close>
  replaces the prototype of an object and does nothing when the receiver is not an
  object or the new prototype is neither an object nor null.
\<close>

definition newQObject :: "qobject \<Rightarrow> jsvalue" where
  "newQObject q = JSQObject q JSNull"

fun setPrototype :: "jsvalue \<Rightarrow> jsvalue \<Rightarrow> jsvalue" where
  "setPrototype (JSObject ps old) proto =
     (if isObject proto \<or> proto = JSNull then JSObject ps proto else JSObject ps old)"
| "setPrototype (JSFunction f ps old) proto =
     (if isObject proto \<or> proto = JSNull then JSFunction f ps proto else JSFunction f ps old)"
| "setPrototype (JSQObject q old) proto =
     (if isObject proto \<or> proto = JSNull then JSQObject q proto else JSQObject q old)"
| "setPrototype (JSError ps old) proto =
     (if isObject proto \<or> proto = JSNull then JSError ps proto else JSError ps old)"
| "setPrototype v proto = v"

section \<open>Events and the calls the adapter makes\<close>

datatype qpointf = QPointF (qpointf_x: real) (qpointf_y: real)

datatype qpoint = QPoint (qpoint_x: int) (qpoint_y: int)

text \<open>
  \<^verbatim>\<open>QKeyEvent\<close> and \<^verbatim>\<open>QGraphicsSceneMouseEvent\<close>, with the fields the file reads.
  Modifier flags and the button are the integers the source casts them to.
\<close>

datatype key_event = KeyEvent (key: int) (key_modifiers: int)

datatype mouse_event = MouseEvent (button: int) (pos: qpointf) (modifiers: int)

datatype map_document = MapDocument (editable: nat)

text \<open>
  Every call the file makes into its collaborators (the base classes
  \<^verbatim>\<open>AbstractTileTool\<close> and \<^verbatim>\<open>AbstractTool\<close>, \<^verbatim>\<open>PluginManager\<close>,
  \<^verbatim>\<open>ScriptManager\<close> and the engine) is an effect; a member function returns the
  effects it causes, in order. A pointer that may be null is an \<open>option\<close>.
  \<open>AbstractTileTool_updateEnabledState\<close> is the base implementation that
  \<^verbatim>\<open>updateEnabledState\<close> skips on purpose.
\<close>

datatype effect =
    AbstractTileTool_activate "nat option"
  | AbstractTileTool_deactivate "nat option"
  | AbstractTileTool_mouseEntered
  | AbstractTileTool_mouseLeft
  | AbstractTileTool_mouseMoved qpointf int
  | AbstractTileTool_mapDocumentChanged "map_document option" "map_document option"
  | AbstractTileTool_updateEnabledState
  | AbstractTool_updateEnabledState
  | UpdateBrushVisibility
  | PluginManager_addObject
  | PluginManager_removeObject
  | CallWithInstance jsvalue jsvalue "jsvalue list"
  | CheckError jsvalue
  | ThrowError string

record scripted_tool =
  toolName :: string
  mScriptObject :: jsvalue
  mScene :: "nat option"

section \<open>The member functions of ScriptedTool\<close>

text \<open>
  The constructor. The base class is initialised with the name \<^verbatim>\<open><unnamed tool>\<close>;
  \<^verbatim>\<open>setName\<close> replaces it. The in-class initialiser of \<^verbatim>\<open>mScene\<close> is in the
  header, so the initial scene pointer is an argument.
\<close>

definition ScriptedTool :: "script_engine \<Rightarrow> jsvalue \<Rightarrow> nat option \<Rightarrow> scripted_tool \<times> effect list" where
  "ScriptedTool eng object scene0 =
     (let t = \<lparr>toolName = ''<unnamed tool>'', mScriptObject = object, mScene = scene0\<rparr>;
          nameProperty = property eng object ''name'';
          t' = (case nameProperty of
                  JSString nm \<Rightarrow> (if nm \<noteq> [] then t\<lparr>toolName := nm\<rparr> else t)
                | _ \<Rightarrow> t)
      in (t', [PluginManager_addObject]))"

definition destroy_ScriptedTool :: "scripted_tool \<Rightarrow> effect list" where
  "destroy_ScriptedTool t = [PluginManager_removeObject]"

text \<open>
  Modelled from the spec: the default value of the \<^verbatim>\<open>args\<close> parameter of
  \<^verbatim>\<open>call\<close> is declared in the header \<^verbatim>\<open>scriptedtool.h\<close>, which is not among
  the sources. The spec has each hook invoked "with a fixed argument list derived from
  the event"; a handler that passes no list derives nothing from its event, so the
  default is taken to be the empty list.
\<close>

definition default_args :: "jsvalue list" where
  "default_args = []"

definition call :: "script_engine \<Rightarrow> scripted_tool \<Rightarrow> string \<Rightarrow> jsvalue list \<Rightarrow> bool \<times> effect list" where
  "call eng t methodName args =
     (let method = property eng (mScriptObject t) methodName in
      if isCallable method then
        (let self = setPrototype (newQObject ScriptedToolObject) (mScriptObject t);
             result = callWithInstance eng method self args
         in (True, [CallWithInstance method self args, CheckError result]))
      else (False, []))"

definition activate :: "script_engine \<Rightarrow> nat option \<Rightarrow> scripted_tool \<Rightarrow> scripted_tool \<times> effect list" where
  "activate eng scene t =
     (let t' = t\<lparr>mScene := scene\<rparr> in
      (t', AbstractTileTool_activate scene # snd (call eng t' ''activated'' default_args)))"

definition deactivate :: "script_engine \<Rightarrow> nat option \<Rightarrow> scripted_tool \<Rightarrow> scripted_tool \<times> effect list" where
  "deactivate eng scene t =
     (t\<lparr>mScene := None\<rparr>,
      AbstractTileTool_deactivate scene # snd (call eng t ''deactivated'' default_args))"

definition keyPressed :: "script_engine \<Rightarrow> key_event \<Rightarrow> scripted_tool \<Rightarrow> scripted_tool \<times> effect list" where
  "keyPressed eng keyEvent t =
     (let args = [JSInt (key keyEvent), JSInt (key_modifiers keyEvent)] in
      (t, snd (call eng t ''keyPressed'' args)))"

definition mouseEntered :: "script_engine \<Rightarrow> scripted_tool \<Rightarrow> scripted_tool \<times> effect list" where
  "mouseEntered eng t =
     (t, AbstractTileTool_mouseEntered # snd (call eng t ''mouseEntered'' default_args))"

definition mouseLeft :: "script_engine \<Rightarrow> scripted_tool \<Rightarrow> scripted_tool \<times> effect list" where
  "mouseLeft eng t =
     (t, AbstractTileTool_mouseLeft # snd (call eng t ''mouseEntered'' default_args))"

definition mouseMoved :: "script_engine \<Rightarrow> qpointf \<Rightarrow> int \<Rightarrow> scripted_tool \<Rightarrow> scripted_tool \<times> effect list" where
  "mouseMoved eng p mods t =
     (let args = [JSReal (qpointf_x p), JSReal (qpointf_y p), JSInt mods] in
      (t, AbstractTileTool_mouseMoved p mods # snd (call eng t ''mouseMoved'' args)))"

definition mousePressed :: "script_engine \<Rightarrow> mouse_event \<Rightarrow> scripted_tool \<Rightarrow> scripted_tool \<times> effect list" where
  "mousePressed eng event t =
     (let args = [JSInt (button event), JSReal (qpointf_x (pos event)),
                  JSReal (qpointf_y (pos event)), JSInt (modifiers event)] in
      (t, snd (call eng t ''mousePressed'' args)))"

definition mouseReleased :: "script_engine \<Rightarrow> mouse_event \<Rightarrow> scripted_tool \<Rightarrow> scripted_tool \<times> effect list" where
  "mouseReleased eng event t =
     (let args = [JSInt (button event), JSReal (qpointf_x (pos event)),
                  JSReal (qpointf_y (pos event)), JSInt (modifiers event)] in
      (t, snd (call eng t ''mouseReleased'' args)))"

definition mouseDoubleClicked :: "script_engine \<Rightarrow> mouse_event \<Rightarrow> scripted_tool \<Rightarrow> scripted_tool \<times> effect list" where
  "mouseDoubleClicked eng event t =
     (let args = [JSInt (button event), JSReal (qpointf_x (pos event)),
                  JSReal (qpointf_y (pos event)), JSInt (modifiers event)];
          r = call eng t ''mouseDoubleClicked'' args
      in if \<not> fst r then
           (let p = mousePressed eng event t in (fst p, snd r @ snd p))
         else (t, snd r))"

definition modifiersChanged :: "script_engine \<Rightarrow> int \<Rightarrow> scripted_tool \<Rightarrow> scripted_tool \<times> effect list" where
  "modifiersChanged eng mods t =
     (let args = [JSInt mods] in
      (t, snd (call eng t ''modifiersChanged'' args)))"

definition languageChanged :: "script_engine \<Rightarrow> scripted_tool \<Rightarrow> scripted_tool \<times> effect list" where
  "languageChanged eng t = (t, snd (call eng t ''languageChanged'' default_args))"

text \<open>
  \<^verbatim>\<open>validateToolObject\<close> is static. The message goes through Qt's translation
  function \<^verbatim>\<open>tr\<close>, a parameter here.
\<close>

definition validateToolObject :: "script_engine \<Rightarrow> (string \<Rightarrow> string) \<Rightarrow> jsvalue \<Rightarrow> bool \<times> effect list" where
  "validateToolObject eng tr v =
     (let nameProperty = property eng v ''name'' in
      if \<not> isString nameProperty then
        (False, [ThrowError (tr ''Invalid tool object (requires string 'name' property)'')])
      else (True, []))"

definition mapDocumentChanged ::
  "script_engine \<Rightarrow> map_document option \<Rightarrow> map_document option \<Rightarrow> scripted_tool \<Rightarrow> scripted_tool \<times> effect list" where
  "mapDocumentChanged eng oldDocument newDocument t =
     (let args =
        [case oldDocument of Some d \<Rightarrow> newQObject (EditableObject (editable d)) | None \<Rightarrow> JSNull,
         case newDocument of Some d \<Rightarrow> newQObject (EditableObject (editable d)) | None \<Rightarrow> JSNull]
      in (t, AbstractTileTool_mapDocumentChanged oldDocument newDocument
               # snd (call eng t ''mapChanged'' args)))"

definition tilePositionChanged :: "script_engine \<Rightarrow> qpoint \<Rightarrow> scripted_tool \<Rightarrow> scripted_tool \<times> effect list" where
  "tilePositionChanged eng tilePos t =
     (let args = [JSInt (qpoint_x tilePos), JSInt (qpoint_y tilePos)] in
      (t, snd (call eng t ''tilePositionChanged'' args)))"

definition updateEnabledState :: "script_engine \<Rightarrow> scripted_tool \<Rightarrow> scripted_tool \<times> effect list" where
  "updateEnabledState eng t =
     (let r = call eng t ''updateEnabledState'' default_args in
      (t, snd r @ (if \<not> fst r then [AbstractTool_updateEnabledState] else [])
            @ [UpdateBrushVisibility]))"

text \<open>
  The host fires an event by calling the virtual member function of that event.
\<close>

datatype tool_event =
    Activate "nat option"
  | Deactivate "nat option"
  | KeyPressed key_event
  | MouseEntered
  | MouseLeft
  | MouseMoved qpointf int
  | MousePressed mouse_event
  | MouseReleased mouse_event
  | MouseDoubleClicked mouse_event
  | ModifiersChanged int
  | LanguageChanged
  | MapDocumentChanged "map_document option" "map_document option"
  | TilePositionChanged qpoint
  | UpdateEnabledState

fun fire :: "script_engine \<Rightarrow> tool_event \<Rightarrow> scripted_tool \<Rightarrow> scripted_tool \<times> effect list" where
  "fire eng (Activate scene) t = activate eng scene t"
| "fire eng (Deactivate scene) t = deactivate eng scene t"
| "fire eng (KeyPressed e) t = keyPressed eng e t"
| "fire eng MouseEntered t = mouseEntered eng t"
| "fire eng MouseLeft t = mouseLeft eng t"
| "fire eng (MouseMoved p mods) t = mouseMoved eng p mods t"
| "fire eng (MousePressed e) t = mousePressed eng e t"
| "fire eng (MouseReleased e) t = mouseReleased eng e t"
| "fire eng (MouseDoubleClicked e) t = mouseDoubleClicked eng e t"
| "fire eng (ModifiersChanged mods) t = modifiersChanged eng mods t"
| "fire eng LanguageChanged t = languageChanged eng t"
| "fire eng (MapDocumentChanged old new) t = mapDocumentChanged eng old new t"
| "fire eng (TilePositionChanged p) t = tilePositionChanged eng p t"
| "fire eng UpdateEnabledState t = updateEnabledState eng t"

section \<open>Reading a list of effects\<close>

text \<open>
  The callbacks run among a list of effects, each with its receiver and arguments, and
  the calls into the overridden base-class implementations of the tool framework.
\<close>

fun invocations :: "effect list \<Rightarrow> (jsvalue \<times> jsvalue \<times> jsvalue list) list" where
  "invocations [] = []"
| "invocations (CallWithInstance m s a # es) = (m, s, a) # invocations es"
| "invocations (e # es) = invocations es"


text \<open>
  Every callback run in a list of effects is followed at once by the error check of
  the value that run returned.
\<close>

fun checked :: "script_engine \<Rightarrow> effect list \<Rightarrow> bool" where
  "checked eng [] = True"
| "checked eng (e # es) =
     (case e of
        CallWithInstance m s a \<Rightarrow>
          (case es of
             [] \<Rightarrow> False
           | e' # es' \<Rightarrow> e' = CheckError (callWithInstance eng m s a)) \<and> checked eng es
      | _ \<Rightarrow> checked eng es)"

definition passed_args :: "effect list \<Rightarrow> jsvalue list list" where
  "passed_args es = map (\<lambda>(m, s, a). a) (invocations es)"


definition hook_callable :: "script_engine \<Rightarrow> scripted_tool \<Rightarrow> string \<Rightarrow> bool" where
  "hook_callable eng t n = isCallable (property eng (mScriptObject t) n)"

text \<open>The receiver \<^verbatim>\<open>call\<close> builds for a tool.\<close>

definition receiver :: "scripted_tool \<Rightarrow> jsvalue" where
  "receiver t = setPrototype (newQObject ScriptedToolObject) (mScriptObject t)"


section \<open>Sample inputs\<close>

text \<open>
  An engine whose function number 0 throws and whose other functions return their
  number; the adapter's wrapper exposes one member of its own, \<^verbatim>\<open>map\<close>.
\<close>

definition sample_engine :: script_engine where
  "sample_engine =
     \<lparr>callWithInstance = (\<lambda>m s a. case m of
          JSFunction f ps proto \<Rightarrow>
            (if f = 0 then JSError [(''message'', JSString ''boom'')] JSNull else JSInt (int f))
        | _ \<Rightarrow> JSUndefined),
      qobjectMember = (\<lambda>q n. if q = ScriptedToolObject \<and> n = ''map'' then Some JSNull else None)\<rparr>"

definition fn :: "nat \<Rightarrow> jsvalue" where
  "fn f = JSFunction f [] JSNull"

definition tool_of :: "jsvalue \<Rightarrow> scripted_tool" where
  "tool_of object = \<lparr>toolName = ''<unnamed tool>'', mScriptObject = object, mScene = None\<rparr>"

text \<open>A script object with every hook, one with none, one with the two mouse
  enter/leave hooks only, one with the mouse-leave hook only and one with the
  mouse-press hook only.\<close>

definition full_object :: jsvalue where
  "full_object = JSObject
     [(''name'', JSString ''Stamp''),
      (''activated'', fn 1), (''deactivated'', fn 2), (''keyPressed'', fn 3),
      (''mouseEntered'', fn 4), (''mouseLeft'', fn 5), (''mouseMoved'', fn 6),
      (''mousePressed'', fn 7), (''mouseReleased'', fn 8), (''mouseDoubleClicked'', fn 9),
      (''modifiersChanged'', fn 10), (''languageChanged'', fn 11), (''mapChanged'', fn 12),
      (''tilePositionChanged'', fn 13), (''updateEnabledState'', fn 0)] JSNull"

definition bare_object :: jsvalue where
  "bare_object = JSObject [(''name'', JSString ''Bare'')] JSNull"

definition leave_object :: jsvalue where
  "leave_object = JSObject
     [(''name'', JSString ''Hover''), (''mouseEntered'', fn 4), (''mouseLeft'', fn 5)] JSNull"

definition only_leave_object :: jsvalue where
  "only_leave_object = JSObject
     [(''name'', JSString ''Leave''), (''mouseLeft'', fn 5)] JSNull"

definition press_object :: jsvalue where
  "press_object = JSObject
     [(''name'', JSString ''Press''), (''mousePressed'', fn 7)] JSNull"

definition sample_click :: mouse_event where
  "sample_click = MouseEvent 1 (QPointF 12 34) 0"

section \<open>Facts about the adapter\<close>

lemmas handler_defs = activate_def deactivate_def keyPressed_def mouseEntered_def mouseLeft_def
  mouseMoved_def mousePressed_def mouseReleased_def mouseDoubleClicked_def modifiersChanged_def
  languageChanged_def mapDocumentChanged_def tilePositionChanged_def updateEnabledState_def

lemmas sample_defs = sample_engine_def fn_def tool_of_def full_object_def bare_object_def
  leave_object_def only_leave_object_def press_object_def sample_click_def

lemma call_result:
  "call eng t n args =
     (if hook_callable eng t n
      then (True, [CallWithInstance (property eng (mScriptObject t) n) (receiver t) args,
                   CheckError (callWithInstance eng (property eng (mScriptObject t) n) (receiver t) args)])
      else (False, []))"
  by (simp add: call_def hook_callable_def receiver_def Let_def)

lemma callable_isObject: "isCallable (property eng v n) \<Longrightarrow> isObject v"
  by (cases v) simp_all

lemma receiver_callable:
  "hook_callable eng t n \<Longrightarrow> receiver t = JSQObject ScriptedToolObject (mScriptObject t)"
  by (auto simp: hook_callable_def receiver_def newQObject_def dest: callable_isObject)

lemma hook_callable_mScene [simp]: "hook_callable eng (t\<lparr>mScene := sc\<rparr>) n = hook_callable eng t n"
  by (simp add: hook_callable_def)

lemma receiver_mScene [simp]: "receiver (t\<lparr>mScene := sc\<rparr>) = receiver t"
  by (simp add: receiver_def)

lemma fire_invocation_receiver:
  "(m, s, a) \<in> set (invocations (snd (fire eng ev t))) \<Longrightarrow> s = JSQObject ScriptedToolObject (mScriptObject t)"
  by (cases ev) (auto simp: handler_defs call_result Let_def dest: receiver_callable split: if_splits)

lemma checked_fire: "checked eng (snd (fire eng ev t))"
  by (cases ev) (simp_all add: handler_defs call_result Let_def)

lemma checked_split:
  "checked eng es \<Longrightarrow> CallWithInstance m s a \<in> set es \<Longrightarrow>
   \<exists>pre post. es = pre @ [CallWithInstance m s a, CheckError (callWithInstance eng m s a)] @ post"
proof (induction es)
  case Nil
  then show ?case by simp
next
  case (Cons e es)
  show ?case
  proof (cases "e = CallWithInstance m s a")
    case True
    with Cons.prems obtain es' where "es = CheckError (callWithInstance eng m s a) # es'"
      by (cases es) auto
    with True have "e # es = [] @ [CallWithInstance m s a, CheckError (callWithInstance eng m s a)] @ es'"
      by simp
    then show ?thesis by blast
  next
    case False
    with Cons.prems have "CallWithInstance m s a \<in> set es" by simp
    moreover from Cons.prems have "checked eng es"
      by (cases e) (auto split: list.splits)
    ultimately obtain pre post where
      "es = pre @ [CallWithInstance m s a, CheckError (callWithInstance eng m s a)] @ post"
      using Cons.IH by blast
    then have "e # es = (e # pre) @ [CallWithInstance m s a, CheckError (callWithInstance eng m s a)] @ post"
      by simp
    then show ?thesis by blast
  qed
qed


text \<open>
  The thirteen handlers that look up the hook of their own event pass it these
  argument lists.
\<close>

lemma own_hook_argument_lists:
  "(hook_callable eng t ''activated'' \<longrightarrow>
      passed_args (snd (activate eng scene t)) = [[]])
   \<and> (hook_callable eng t ''deactivated'' \<longrightarrow>
      passed_args (snd (deactivate eng scene t)) = [[]])
   \<and> (hook_callable eng t ''keyPressed'' \<longrightarrow>
      passed_args (snd (keyPressed eng ke t)) = [[JSInt (key ke), JSInt (key_modifiers ke)]])
   \<and> (hook_callable eng t ''mouseEntered'' \<longrightarrow>
      passed_args (snd (mouseEntered eng t)) = [[]])
   \<and> (hook_callable eng t ''mouseMoved'' \<longrightarrow>
      passed_args (snd (mouseMoved eng p mods t)) =
        [[JSReal (qpointf_x p), JSReal (qpointf_y p), JSInt mods]])
   \<and> (hook_callable eng t ''mousePressed'' \<longrightarrow>
      passed_args (snd (mousePressed eng e t)) =
        [[JSInt (button e), JSReal (qpointf_x (pos e)), JSReal (qpointf_y (pos e)),
          JSInt (modifiers e)]])
   \<and> (hook_callable eng t ''mouseReleased'' \<longrightarrow>
      passed_args (snd (mouseReleased eng e t)) =
        [[JSInt (button e), JSReal (qpointf_x (pos e)), JSReal (qpointf_y (pos e)),
          JSInt (modifiers e)]])
   \<and> (hook_callable eng t ''mouseDoubleClicked'' \<longrightarrow>
      passed_args (snd (mouseDoubleClicked eng e t)) =
        [[JSInt (button e), JSReal (qpointf_x (pos e)), JSReal (qpointf_y (pos e)),
          JSInt (modifiers e)]])
   \<and> (hook_callable eng t ''modifiersChanged'' \<longrightarrow>
      passed_args (snd (modifiersChanged eng mods t)) = [[JSInt mods]])
   \<and> (hook_callable eng t ''languageChanged'' \<longrightarrow>
      passed_args (snd (languageChanged eng t)) = [[]])
   \<and> (hook_callable eng t ''mapChanged'' \<longrightarrow>
      passed_args (snd (mapDocumentChanged eng old new t)) =
        [[case old of None \<Rightarrow> JSNull | Some d \<Rightarrow> JSQObject (EditableObject (editable d)) JSNull,
          case new of None \<Rightarrow> JSNull | Some d \<Rightarrow> JSQObject (EditableObject (editable d)) JSNull]])
   \<and> (hook_callable eng t ''tilePositionChanged'' \<longrightarrow>
      passed_args (snd (tilePositionChanged eng tp t)) =
        [[JSInt (qpoint_x tp), JSInt (qpoint_y tp)]])
   \<and> (hook_callable eng t ''updateEnabledState'' \<longrightarrow>
      passed_args (snd (updateEnabledState eng t)) = [[]])"
  by (simp add: handler_defs call_result passed_args_def default_args_def newQObject_def Let_def
      split: option.split)

text \<open>
  C1. Every handler should look up the hook of its own event; the mouse-leave event
  should reach the script's \<^verbatim>\<open>mouseLeft\<close> hook. In the source \<^verbatim>\<open>mouseLeft\<close> asks
  for the property \<^verbatim>\<open>mouseEntered\<close>: on a script object that has both hooks, with
  different functions, a mouse-leave event runs the mouse-enter function and the
  mouse-leave function is not run.
\<close>

theorem mouseLeft_calls_mouseEntered_hook:
  "snd (mouseLeft sample_engine (tool_of leave_object)) =
     [AbstractTileTool_mouseLeft,
      CallWithInstance (fn 4) (JSQObject ScriptedToolObject leave_object) [],
      CheckError (JSInt 4)]
   \<and> property sample_engine leave_object ''mouseLeft'' = fn 5
   \<and> property sample_engine leave_object ''mouseEntered'' = fn 4
   \<and> fn 5 \<noteq> fn 4"
  by (simp add: mouseLeft_def call_def default_args_def newQObject_def sample_defs Let_def)




text \<open>
  C3. \<^verbatim>\<open>validateToolObject\<close> returns false and throws the (translated) error
  \<^verbatim>\<open>Invalid tool object (requires string 'name' property)\<close> through the script manager
  when the \<^verbatim>\<open>name\<close> property is not a string; when it is a string it returns true and
  reports nothing.
\<close>

theorem validateToolObject_name:
  "(\<not> isString (property eng v ''name'') \<longrightarrow>
      validateToolObject eng tr v =
        (False, [ThrowError (tr ''Invalid tool object (requires string 'name' property)'')]))
   \<and> (isString (property eng v ''name'') \<longrightarrow> validateToolObject eng tr v = (True, []))"
  by (simp add: validateToolObject_def Let_def)

theorem validateToolObject_name_witness:
  "\<not> isString (property sample_engine (JSObject [(''name'', JSInt 3)] JSNull) ''name'')
   \<and> validateToolObject sample_engine (\<lambda>s. s) (JSObject [(''name'', JSInt 3)] JSNull) =
        (False, [ThrowError ''Invalid tool object (requires string 'name' property)''])
   \<and> validateToolObject sample_engine (\<lambda>s. s) (JSObject [] JSNull) =
        (False, [ThrowError ''Invalid tool object (requires string 'name' property)''])
   \<and> isString (property sample_engine bare_object ''name'')
   \<and> validateToolObject sample_engine (\<lambda>s. s) bare_object = (True, [])"
  using validateToolObject_name [of sample_engine "JSObject [(''name'', JSInt 3)] JSNull" "\<lambda>s. s"]
    validateToolObject_name [of sample_engine "JSObject [] JSNull" "\<lambda>s. s"]
    validateToolObject_name [of sample_engine bare_object "\<lambda>s. s"]
  by (simp add: sample_defs)

text \<open>
  C4. \<^verbatim>\<open>call\<close> returns true exactly when the property of the given name is callable;
  when it is not, \<^verbatim>\<open>call\<close> returns false and causes no effect at all, so nothing
  reaches the script-error reporter.
\<close>

theorem call_missing_callback:
  "fst (call eng t n args) = isCallable (property eng (mScriptObject t) n)
   \<and> (\<not> isCallable (property eng (mScriptObject t) n) \<longrightarrow> call eng t n args = (False, []))"
  by (simp add: call_def Let_def)

theorem call_missing_callback_witness:
  "\<not> isCallable (property sample_engine (mScriptObject (tool_of bare_object)) ''keyPressed'')
   \<and> call sample_engine (tool_of bare_object) ''keyPressed'' [JSInt 65, JSInt 0] = (False, [])
   \<and> fst (call sample_engine (tool_of full_object) ''keyPressed'' [JSInt 65, JSInt 0])"
  using call_missing_callback [of sample_engine "tool_of bare_object" "''keyPressed''" "[JSInt 65, JSInt 0]"]
    call_missing_callback [of sample_engine "tool_of full_object" "''keyPressed''" "[JSInt 65, JSInt 0]"]
  by (simp add: sample_defs)

text \<open>
  C5. Whenever an event runs a script callback, the value that run returned (an error
  object when the callback threw) is handed to \<^verbatim>\<open>ScriptManager::checkError\<close>
  directly after the run.
\<close>

theorem callback_result_checked:
  assumes "CallWithInstance m s a \<in> set (snd (fire eng ev t))"
  shows "\<exists>pre post. snd (fire eng ev t) =
           pre @ [CallWithInstance m s a, CheckError (callWithInstance eng m s a)] @ post"
  using checked_split [OF checked_fire assms] .

theorem callback_result_checked_witness:
  "isError (callWithInstance sample_engine (fn 0) (JSQObject ScriptedToolObject full_object) [])
   \<and> (\<exists>pre post. snd (fire sample_engine UpdateEnabledState (tool_of full_object)) =
         pre @ [CallWithInstance (fn 0) (JSQObject ScriptedToolObject full_object) [],
                CheckError (callWithInstance sample_engine (fn 0)
                  (JSQObject ScriptedToolObject full_object) [])] @ post)"
proof -
  have h: "CallWithInstance (fn 0) (JSQObject ScriptedToolObject full_object) []
     \<in> set (snd (fire sample_engine UpdateEnabledState (tool_of full_object)))"
    by (simp add: updateEnabledState_def call_def newQObject_def default_args_def sample_defs Let_def)
  have e: "isError (callWithInstance sample_engine (fn 0) (JSQObject ScriptedToolObject full_object) [])"
    by (simp add: sample_defs)
  from callback_result_checked [OF h] e show ?thesis by blast
qed

text \<open>
  C6. Every callback an event runs has as receiver the wrapper of the adapter object
  with the script object as its prototype, so a property the wrapper does not have
  itself is looked up on the script object.
\<close>

theorem callback_receiver:
  assumes "(m, s, a) \<in> set (invocations (snd (fire eng ev t)))"
  shows "s = JSQObject ScriptedToolObject (mScriptObject t)
    \<and> property eng s n =
        (case qobjectMember eng ScriptedToolObject n of
           Some v \<Rightarrow> v
         | None \<Rightarrow> property eng (mScriptObject t) n)"
  using fire_invocation_receiver [OF assms] by simp

theorem callback_receiver_witness:
  "(fn 6, JSQObject ScriptedToolObject full_object, [JSReal 1, JSReal 2, JSInt 0])
     \<in> set (invocations (snd (fire sample_engine (MouseMoved (QPointF 1 2) 0) (tool_of full_object))))
   \<and> property sample_engine (JSQObject ScriptedToolObject full_object) ''mousePressed'' = fn 7
   \<and> property sample_engine (JSQObject ScriptedToolObject full_object) ''map'' = JSNull"
proof -
  have h: "(fn 6, JSQObject ScriptedToolObject full_object, [JSReal 1, JSReal 2, JSInt 0])
     \<in> set (invocations (snd (fire sample_engine (MouseMoved (QPointF 1 2) 0) (tool_of full_object))))"
    by (simp add: mouseMoved_def call_def newQObject_def sample_defs Let_def)
  from callback_receiver [OF h, of "''mousePressed''"] callback_receiver [OF h, of "''map''"] h
  show ?thesis
    by (simp add: sample_defs)
qed

text \<open>
  C7. Each hook should receive the argument list of its event, the mouse-leave hook an
  empty one. In the source a mouse-leave event looks up \<^verbatim>\<open>mouseEntered\<close>: on a
  script object whose only hook is a callable \<^verbatim>\<open>mouseLeft\<close> the event runs the base
  implementation and nothing else, so the mouse-leave hook receives no call and no
  argument list; on an object with both hooks the empty argument list goes to the
  mouse-enter function.
\<close>

theorem mouseLeft_hook_not_run:
  "isCallable (property sample_engine (mScriptObject (tool_of only_leave_object)) ''mouseLeft'')
   \<and> snd (mouseLeft sample_engine (tool_of only_leave_object)) = [AbstractTileTool_mouseLeft]
   \<and> passed_args (snd (mouseLeft sample_engine (tool_of only_leave_object))) = []
   \<and> property sample_engine leave_object ''mouseLeft'' = fn 5
   \<and> invocations (snd (mouseLeft sample_engine (tool_of leave_object))) =
       [(fn 4, JSQObject ScriptedToolObject leave_object, [])]"
  by (simp add: mouseLeft_def call_def default_args_def newQObject_def passed_args_def
      sample_defs Let_def)

text \<open>
  C8. Without a callable \<^verbatim>\<open>mouseDoubleClicked\<close> property a double click is handled
  exactly as a mouse press with the same event, so a callable \<^verbatim>\<open>mousePressed\<close> hook
  is the one callback run; with a callable \<^verbatim>\<open>mouseDoubleClicked\<close> property the
  effects are those of that one call and the only callback run is that property.
\<close>

theorem mouseDoubleClicked_fallback:
  "(\<not> hook_callable eng t ''mouseDoubleClicked'' \<longrightarrow>
      mouseDoubleClicked eng e t = mousePressed eng e t)
   \<and> (\<not> hook_callable eng t ''mouseDoubleClicked'' \<and> hook_callable eng t ''mousePressed'' \<longrightarrow>
      map fst (invocations (snd (mouseDoubleClicked eng e t))) =
        [property eng (mScriptObject t) ''mousePressed''])
   \<and> (hook_callable eng t ''mouseDoubleClicked'' \<longrightarrow>
      snd (mouseDoubleClicked eng e t) =
        snd (call eng t ''mouseDoubleClicked''
          [JSInt (button e), JSReal (qpointf_x (pos e)), JSReal (qpointf_y (pos e)),
           JSInt (modifiers e)])
      \<and> map fst (invocations (snd (mouseDoubleClicked eng e t))) =
        [property eng (mScriptObject t) ''mouseDoubleClicked''])"
  by (simp add: mouseDoubleClicked_def mousePressed_def call_result Let_def)

theorem mouseDoubleClicked_fallback_witness:
  "\<not> hook_callable sample_engine (tool_of press_object) ''mouseDoubleClicked''
   \<and> hook_callable sample_engine (tool_of press_object) ''mousePressed''
   \<and> mouseDoubleClicked sample_engine sample_click (tool_of press_object) =
       mousePressed sample_engine sample_click (tool_of press_object)
   \<and> map fst (invocations (snd (mouseDoubleClicked sample_engine sample_click (tool_of press_object)))) = [fn 7]
   \<and> hook_callable sample_engine (tool_of full_object) ''mouseDoubleClicked''
   \<and> map fst (invocations (snd (mouseDoubleClicked sample_engine sample_click (tool_of full_object)))) = [fn 9]"
  using mouseDoubleClicked_fallback [of sample_engine "tool_of press_object" sample_click]
    mouseDoubleClicked_fallback [of sample_engine "tool_of full_object" sample_click]
  by (simp add: hook_callable_def mouseDoubleClicked_def mousePressed_def call_def
      newQObject_def sample_defs Let_def)

text \<open>
  C9. The constructor has no failing path: it returns a tool for every script object.
  The tool takes the \<^verbatim>\<open>name\<close> property when that is a non-empty string, keeps
  \<^verbatim>\<open><unnamed tool>\<close> when the property is missing, not a string or the empty string,
  and is added to the plugin manager in every case.
\<close>

theorem ScriptedTool_name:
  "(property eng object ''name'' = JSString nm \<and> nm \<noteq> [] \<longrightarrow>
      toolName (fst (ScriptedTool eng object scene0)) = nm)
   \<and> (\<not> isString (property eng object ''name'') \<or> property eng object ''name'' = JSString [] \<longrightarrow>
      toolName (fst (ScriptedTool eng object scene0)) = ''<unnamed tool>'')
   \<and> mScriptObject (fst (ScriptedTool eng object scene0)) = object
   \<and> snd (ScriptedTool eng object scene0) = [PluginManager_addObject]"
  by (cases "property eng object ''name''") (simp_all add: ScriptedTool_def Let_def)

theorem ScriptedTool_name_witness:
  "toolName (fst (ScriptedTool sample_engine full_object None)) = ''Stamp''
   \<and> toolName (fst (ScriptedTool sample_engine (JSObject [] JSNull) None)) = ''<unnamed tool>''
   \<and> toolName (fst (ScriptedTool sample_engine (JSObject [(''name'', JSInt 3)] JSNull) None)) = ''<unnamed tool>''
   \<and> toolName (fst (ScriptedTool sample_engine (JSObject [(''name'', JSString [])] JSNull) None)) = ''<unnamed tool>''
   \<and> snd (ScriptedTool sample_engine (JSObject [(''name'', JSInt 3)] JSNull) None) = [PluginManager_addObject]"
  using ScriptedTool_name [of sample_engine full_object "''Stamp''" None]
    ScriptedTool_name [of sample_engine "JSObject [] JSNull" "[]" None]
    ScriptedTool_name [of sample_engine "JSObject [(''name'', JSInt 3)] JSNull" "[]" None]
    ScriptedTool_name [of sample_engine "JSObject [(''name'', JSString [])] JSNull" "[]" None]
  by (simp add: sample_defs)

text \<open>
  C10. An enabled-state update always ends with the update of the brush visibility,
  done once. When the script has no callable \<^verbatim>\<open>updateEnabledState\<close> the fallback is
  the default of \<^verbatim>\<open>AbstractTool\<close>; the default of \<^verbatim>\<open>AbstractTileTool\<close>, which
  looks at the selected tile layer, is never run.
\<close>

theorem updateEnabledState_brush:
  "last (snd (updateEnabledState eng t)) = UpdateBrushVisibility
   \<and> filter (\<lambda>e. e = UpdateBrushVisibility) (snd (updateEnabledState eng t)) = [UpdateBrushVisibility]
   \<and> (\<not> hook_callable eng t ''updateEnabledState'' \<longrightarrow>
        snd (updateEnabledState eng t) = [AbstractTool_updateEnabledState, UpdateBrushVisibility])
   \<and> AbstractTileTool_updateEnabledState \<notin> set (snd (updateEnabledState eng t))"
  by (simp add: updateEnabledState_def call_result Let_def)

theorem updateEnabledState_brush_witness:
  "\<not> hook_callable sample_engine (tool_of bare_object) ''updateEnabledState''
   \<and> snd (updateEnabledState sample_engine (tool_of bare_object)) =
       [AbstractTool_updateEnabledState, UpdateBrushVisibility]
   \<and> hook_callable sample_engine (tool_of full_object) ''updateEnabledState''
   \<and> last (snd (updateEnabledState sample_engine (tool_of full_object))) = UpdateBrushVisibility"
  using updateEnabledState_brush [of sample_engine "tool_of bare_object"]
    updateEnabledState_brush [of sample_engine "tool_of full_object"]
  by (simp add: hook_callable_def sample_defs)

end
